theory Spec2Isabelle
  imports Complex_Main "HOL-Library.Sublist"
begin

section \<open>Security configuration (lib/security.ts)\<close>

text \<open>
  The constants of \<^verbatim>\<open>SECURITY_CONFIG\<close> that the admission code reads. Times are
  \<^verbatim>\<open>Date.now()\<close> readings, integers counting milliseconds; JavaScript numbers are
  modelled as unbounded integers (counters and clocks stay far below \<open>2^53\<close>).
\<close>

definition RATE_LIMIT_WINDOW :: int where
  "RATE_LIMIT_WINDOW = 15 * 60 * 1000"

definition RATE_LIMIT_MAX_REQUESTS :: int where
  "RATE_LIMIT_MAX_REQUESTS = 100"

section \<open>The rate limiter (lib/security.ts, rateLimit)\<close>

text \<open>
  \<^verbatim>\<open>rateLimitStore\<close> is a \<^verbatim>\<open>Map<string, {count, resetTime}>\<close>: a partial map from
  identifiers to entries. The function mutates it; the model returns the new store
  beside the result.
\<close>

record rate_entry =
  count :: int
  resetTime :: int

type_synonym rate_store = "string \<rightharpoonup> rate_entry"

text \<open>
  The object \<^verbatim>\<open>rateLimit\<close> returns: \<^verbatim>\<open>{success: true, remaining}\<close> or
  \<^verbatim>\<open>{success: false, error, resetTime}\<close>. A field the object does not have is \<open>None\<close>
  (reading it in JavaScript gives \<^verbatim>\<open>undefined\<close>). The result's \<^verbatim>\<open>resetTime\<close> field is
  named \<open>result_resetTime\<close> here, apart from the entry's field.
\<close>

record rate_result =
  success :: bool
  remaining :: "int option"
  error :: "string option"
  result_resetTime :: "int option"

text \<open>
  The sweep at the head of every call:
  \<^verbatim>\<open>rateLimitStore.forEach((value, key) => { if (value.resetTime < now) delete })\<close>.
\<close>

definition cleanup :: "int \<Rightarrow> rate_store \<Rightarrow> rate_store" where
  "cleanup now st =
     (\<lambda>key. case st key of
        None \<Rightarrow> None
      | Some v \<Rightarrow> if resetTime v < now then None else Some v)"

definition rateLimit ::
  "string \<Rightarrow> int \<Rightarrow> int \<Rightarrow> rate_store \<Rightarrow> rate_result \<times> rate_store" where
  "rateLimit identifier maxRequests now st =
     (let st1 = cleanup now st in
      case st1 identifier of
        None \<Rightarrow>
          (\<lparr>success = True, remaining = Some (maxRequests - 1), error = None,
            result_resetTime = None\<rparr>,
           st1(identifier \<mapsto> \<lparr>count = 1, resetTime = now + RATE_LIMIT_WINDOW\<rparr>))
      | Some current \<Rightarrow>
          if count current \<ge> maxRequests then
            (\<lparr>success = False, remaining = None, error = Some ''Rate limit exceeded'',
              result_resetTime = Some (resetTime current)\<rparr>,
             st1)
          else
            (\<lparr>success = True, remaining = Some (maxRequests - (count current + 1)),
              error = None, result_resetTime = None\<rparr>,
             st1(identifier \<mapsto> current\<lparr>count := count current + 1\<rparr>)))"

text \<open>
  A run of calls for one identifier, one clock reading per call: the results in
  order and the store after the last call.
\<close>

fun rateLimit_calls ::
  "string \<Rightarrow> int \<Rightarrow> int list \<Rightarrow> rate_store \<Rightarrow> rate_result list \<times> rate_store" where
  "rateLimit_calls identifier maxRequests [] st = ([], st)"
| "rateLimit_calls identifier maxRequests (now # nows) st =
     (let (r, st1) = rateLimit identifier maxRequests now st;
          (rs, st2) = rateLimit_calls identifier maxRequests nows st1
      in (r # rs, st2))"

text \<open>
  The two shapes of object \<^verbatim>\<open>rateLimit\<close> returns, named for the statements below.
\<close>

definition allowed_result :: "int \<Rightarrow> rate_result" where
  "allowed_result n =
     \<lparr>success = True, remaining = Some n, error = None, result_resetTime = None\<rparr>"

definition rejected_result :: "int \<Rightarrow> rate_result" where
  "rejected_result r =
     \<lparr>success = False, remaining = None, error = Some ''Rate limit exceeded'',
      result_resetTime = Some r\<rparr>"

section \<open>Requests and client identity (lib/security.ts, getClientIP)\<close>

text \<open>
  What the admission code reads of a request. \<^verbatim>\<open>headers\<close> and \<^verbatim>\<open>cookies\<close> are looked up
  by name (\<^verbatim>\<open>headers.get(name)\<close>, \<^verbatim>\<open>cookies.get(name)?.value\<close>): partial maps, \<open>None\<close>
  standing for \<^verbatim>\<open>null\<close> or \<^verbatim>\<open>undefined\<close>. \<open>remoteAddress\<close> is
  \<^verbatim>\<open>request.connection?.remoteAddress\<close>. The field \<open>http_method\<close> is the source's
  \<^verbatim>\<open>request.method\<close>.
\<close>

record request =
  pathname :: string
  url :: string
  http_method :: string
  headers :: "string \<rightharpoonup> string"
  cookies :: "string \<rightharpoonup> string"
  ip :: "string option"
  remoteAddress :: "string option"

text \<open>
  JavaScript truthiness of a value that is a string, \<^verbatim>\<open>null\<close> or \<^verbatim>\<open>undefined\<close>: only a
  non-empty string is truthy. \<open>js_or a b\<close> is \<^verbatim>\<open>a || b\<close>.
\<close>

definition truthy :: "string option \<Rightarrow> bool" where
  "truthy v = (case v of None \<Rightarrow> False | Some s \<Rightarrow> s \<noteq> [])"

definition js_or :: "string option \<Rightarrow> string option \<Rightarrow> string option" where
  "js_or a b = (if truthy a then a else b)"

text \<open>
  \<^verbatim>\<open>String.prototype.trim\<close> strips white space and line terminators from both ends.
  Characters are code units below 256: tab, line feed, vertical tab, form feed,
  carriage return, space and no-break space.
\<close>

definition is_space :: "char \<Rightarrow> bool" where
  "is_space c = (c \<in> set [CHR 0x09, CHR 0x0A, CHR 0x0B, CHR 0x0C, CHR 0x0D, CHR 0x20, CHR 0xA0])"

definition trim :: "string \<Rightarrow> string" where
  "trim s = rev (dropWhile is_space (rev (dropWhile is_space s)))"

text \<open>\<^verbatim>\<open>s.split(',')[0]\<close>: the part of \<open>s\<close> before its first comma.\<close>

definition split_comma_first :: "string \<Rightarrow> string" where
  "split_comma_first s = takeWhile (\<lambda>c. c \<noteq> CHR '','') s"

text \<open>The string a truthy value holds (read only under a truthiness test).\<close>

definition str :: "string option \<Rightarrow> string" where
  "str v = (case v of None \<Rightarrow> [] | Some s \<Rightarrow> s)"

definition getClientIP :: "request \<Rightarrow> string" where
  "getClientIP req =
     (let forwarded = headers req ''x-forwarded-for'';
          realIP = headers req ''x-real-ip''
      in if truthy forwarded then trim (split_comma_first (str forwarded))
         else if truthy realIP then str realIP
         else str (js_or (js_or (ip req) (remoteAddress req)) (Some ''unknown'')))"

section \<open>CSRF tokens (lib/csrf.ts)\<close>

record csrf_entry =
  token :: string
  expires :: int

type_synonym csrf_store = "string \<rightharpoonup> csrf_entry"

text \<open>
  \<^verbatim>\<open>validateCSRFToken(request, token)\<close>, with the clock reading \<open>now\<close> and the table
  \<^verbatim>\<open>csrfTokens\<close> passed in; an expired entry is deleted, so the table is returned too.
\<close>

definition validateCSRFToken ::
  "request \<Rightarrow> string \<Rightarrow> int \<Rightarrow> csrf_store \<Rightarrow> bool \<times> csrf_store" where
  "validateCSRFToken req tok now st =
     (case js_or (cookies req ''next-auth.session-token'')
                 (cookies req ''__Secure-next-auth.session-token'') of
        None \<Rightarrow> (False, st)
      | Some sessionToken \<Rightarrow>
          if sessionToken = [] then (False, st)
          else (case st sessionToken of
                  None \<Rightarrow> (False, st)
                | Some storedToken \<Rightarrow>
                    if token storedToken \<noteq> tok then (False, st)
                    else if now > expires storedToken then (False, st(sessionToken := None))
                    else (True, st)))"

text \<open>
  \<^verbatim>\<open>setCSRFToken(sessionToken)\<close>. The value \<^verbatim>\<open>generateCSRFToken()\<close> draws
  (\<^verbatim>\<open>randomBytes(32).toString('hex')\<close>) is the parameter \<open>fresh\<close>. The function is
  synchronous; its clock readings are one value \<open>now\<close>.
\<close>

definition csrf_sweep :: "int \<Rightarrow> csrf_store \<Rightarrow> csrf_store" where
  "csrf_sweep now st =
     (\<lambda>key. case st key of
        None \<Rightarrow> None
      | Some v \<Rightarrow> if now > expires v then None else Some v)"

definition setCSRFToken :: "string \<Rightarrow> string \<Rightarrow> int \<Rightarrow> csrf_store \<Rightarrow> string \<times> csrf_store" where
  "setCSRFToken sessionToken fresh now st =
     (fresh,
      csrf_sweep now
        (st(sessionToken \<mapsto> \<lparr>token = fresh, expires = now + 24 * 60 * 60 * 1000\<rparr>)))"

section \<open>Responses\<close>

datatype json = JBool bool | JString string | JObject "(string \<times> json) list"

text \<open>
  A URL built by \<^verbatim>\<open>new URL(path, request.url)\<close> and its \<^verbatim>\<open>searchParams\<close>, kept in parts:
  the base it was resolved against, its path and its query parameters in order.
\<close>

record target_url =
  base :: string
  path :: string
  searchParams :: "(string \<times> string) list"

text \<open>\<^verbatim>\<open>url.searchParams.set(name, v)\<close>: the first pair of that name takes the value and
  the others of that name go; a new name is appended.\<close>

fun searchParams_set :: "string \<Rightarrow> string \<Rightarrow> (string \<times> string) list \<Rightarrow> (string \<times> string) list" where
  "searchParams_set name v [] = [(name, v)]"
| "searchParams_set name v ((k, x) # ps) =
     (if k = name then (name, v) # filter (\<lambda>p. fst p \<noteq> name) ps
      else (k, x) # searchParams_set name v ps)"

text \<open>
  What a response does: \<^verbatim>\<open>NextResponse.next()\<close> hands the request on,
  \<^verbatim>\<open>NextResponse.redirect(url)\<close> redirects, and \<^verbatim>\<open>new NextResponse(body, {status})\<close> or
  \<^verbatim>\<open>NextResponse.json(body, {status})\<close> answers with a status and a JSON body.
\<close>

datatype action = Forward | RedirectTo target_url | Respond nat json

text \<open>
  Lower-casing of a character: the letters A to Z go to a to z, every other character
  stays. A \<^verbatim>\<open>Headers\<close> object keeps its names in lower case (they are
  case-insensitive), and the \<^verbatim>\<open>i\<close> flag of a regular expression compares letters this
  way.
\<close>

definition to_lower :: "char \<Rightarrow> char" where
  "to_lower c =
     (case map_of (zip ''ABCDEFGHIJKLMNOPQRSTUVWXYZ'' ''abcdefghijklmnopqrstuvwxyz'') c of
        None \<Rightarrow> c
      | Some d \<Rightarrow> d)"

type_synonym header_map = "string \<rightharpoonup> string"

definition headers_set :: "string \<Rightarrow> string \<Rightarrow> header_map \<Rightarrow> header_map" where
  "headers_set name v h = h(map to_lower name \<mapsto> v)"

definition headers_get :: "header_map \<Rightarrow> string \<Rightarrow> string option" where
  "headers_get h name = h (map to_lower name)"

record response =
  action :: action
  resp_headers :: header_map

section \<open>The CSRF gate (lib/csrf.ts, withCSRFProtection)\<close>

text \<open>
  The wrapped handler may change application state: it is a function from the
  request and that state to its return value and the new state. The wrapper returns
  what the handler returned, or a response of its own.
\<close>

datatype 'r outcome = Handled 'r | Refused response

definition json_response :: "json \<Rightarrow> nat \<Rightarrow> response" where
  "json_response b st =
     \<lparr>action = Respond st b,
      resp_headers = headers_set ''content-type'' ''application/json'' Map.empty\<rparr>"

definition withCSRFProtection ::
  "(request \<Rightarrow> 's \<Rightarrow> 'r \<times> 's) \<Rightarrow> request \<Rightarrow> int \<Rightarrow> csrf_store \<Rightarrow> 's
     \<Rightarrow> 'r outcome \<times> csrf_store \<times> 's" where
  "withCSRFProtection handler req now st app =
     (if http_method req = ''GET'' then
        (let (r, app1) = handler req app in (Handled r, st, app1))
      else
        (let csrfToken = headers req ''x-csrf-token'' in
         if \<not> truthy csrfToken then
           (Refused (json_response
              (JObject [(''success'', JBool False), (''error'', JString ''CSRF token missing'')])
              403), st, app)
         else
           (let (isValid, st1) = validateCSRFToken req (str csrfToken) now st in
            if \<not> isValid then
              (Refused (json_response
                 (JObject [(''success'', JBool False), (''error'', JString ''Invalid CSRF token'')])
                 403), st1, app)
            else
              (let (r, app1) = handler req app in (Handled r, st1, app1)))))"

section \<open>The middleware (middleware.ts)\<close>

text \<open>
  What the middleware gets from outside while it handles one request: the clock
  reading, the session token \<^verbatim>\<open>getToken\<close> decoded (\<open>None\<close> for \<^verbatim>\<open>null\<close>), the response of
  \<^verbatim>\<open>intlMiddleware(request)\<close>, and the array \<^verbatim>\<open>Object.entries(response.headers)\<close> gives
  for the \<^verbatim>\<open>Headers\<close> object (its own enumerable string-keyed properties; a standard
  \<^verbatim>\<open>Headers\<close> object has none, its entries being internal state). Of the token only
  \<^verbatim>\<open>exp\<close> is read (the field \<open>token_exp\<close>): \<open>None\<close> when it is absent or not a number.
\<close>

record jwt =
  token_exp :: "int option"

record env =
  env_now :: int
  env_getToken :: "jwt option"
  env_intlResponse :: response
  env_entries :: "(string \<times> string) list"


definition security_headers :: header_map where
  "security_headers =
     headers_set ''Permissions-Policy'' ''camera=(), microphone=(), geolocation=()''
       (headers_set ''Referrer-Policy'' ''strict-origin-when-cross-origin''
         (headers_set ''X-XSS-Protection'' ''1; mode=block''
           (headers_set ''X-Frame-Options'' ''DENY''
             (headers_set ''X-Content-Type-Options'' ''nosniff'' Map.empty))))"

text \<open>
  The inline limiter of API routes over the table \<^verbatim>\<open>apiRateLimit\<close>: \<open>Some\<close> of the 429
  response when the request is refused, \<open>None\<close> when the middleware goes on.
\<close>

definition api_rate_check :: "string \<Rightarrow> int \<Rightarrow> rate_store \<Rightarrow> response option \<times> rate_store" where
  "api_rate_check rateLimitKey t st =
     (let st1 = cleanup t st in
      case st1 rateLimitKey of
        None \<Rightarrow> (None, st1(rateLimitKey \<mapsto> \<lparr>count = 1, resetTime = t + RATE_LIMIT_WINDOW\<rparr>))
      | Some current \<Rightarrow>
          if count current \<ge> RATE_LIMIT_MAX_REQUESTS then
            (Some (json_response
               (JObject [(''success'', JBool False), (''error'', JString ''Rate limit exceeded'')])
               429), st1)
          else (None, st1(rateLimitKey \<mapsto> current\<lparr>count := count current + 1\<rparr>)))"

text \<open>
  \<^verbatim>\<open>token.exp && typeof token.exp === 'number' && token.exp < Date.now() / 1000\<close>: zero is
  falsy, and the division is exact in the reals.
\<close>

definition session_expired :: "jwt \<Rightarrow> int \<Rightarrow> bool" where
  "session_expired tk t =
     (case token_exp tk of
        None \<Rightarrow> False
      | Some e \<Rightarrow> e \<noteq> 0 \<and> real_of_int e < real_of_int t / 1000)"

definition login_redirect :: "request \<Rightarrow> (string \<times> string) list \<Rightarrow> response" where
  "login_redirect req params =
     \<lparr>action = RedirectTo
        \<lparr>base = url req, path = ''/admin/login'',
         searchParams = fold (\<lambda>(k, v). searchParams_set k v) params []\<rparr>,
      resp_headers = Map.empty\<rparr>"

definition middleware :: "request \<Rightarrow> env \<Rightarrow> rate_store \<Rightarrow> response \<times> rate_store" where
  "middleware req e st =
     (let clientIP = getClientIP req;
          response = \<lparr>action = Forward, resp_headers = security_headers\<rparr>
      in
      if prefix ''/admin'' (pathname req) \<or> prefix ''/api'' (pathname req) \<or>
         prefix ''/_next'' (pathname req) \<or> prefix ''/uploads'' (pathname req)
      then
        (let (limited, st1) =
               (if prefix ''/api'' (pathname req) \<and>
                   \<not> prefix ''/api/public/settings'' (pathname req)
                then api_rate_check (''api:'' @ clientIP) (env_now e) st
                else (None, st))
         in case limited of
              Some r \<Rightarrow> (r, st1)
            | None \<Rightarrow>
                if prefix ''/admin'' (pathname req) \<and> pathname req \<noteq> ''/admin/login'' then
                  (case env_getToken e of
                     None \<Rightarrow> (login_redirect req [(''callbackUrl'', pathname req)], st1)
                   | Some tk \<Rightarrow>
                       if session_expired tk (env_now e) then
                         (login_redirect req
                            [(''callbackUrl'', pathname req), (''error'', ''session_expired'')],
                          st1)
                       else (response, st1))
                else (response, st1))
      else
        (env_intlResponse e
           \<lparr>resp_headers :=
              fold (\<lambda>(k, v). headers_set k v) (env_entries e)
                (resp_headers (env_intlResponse e))\<rparr>,
         st))"

section \<open>Validation of the environment\<close>

text \<open>
  \<^verbatim>\<open>process.env\<close> is a partial map from names to strings. The validator that
  \<^verbatim>\<open>middleware.ts\<close> imports and runs at start-up is that of \<^verbatim>\<open>lib/security.ts\<close>; it returns
  \<^verbatim>\<open>{valid, errors}\<close>.
\<close>

type_synonym process_env = "string \<rightharpoonup> string"

record env_report =
  valid :: bool
  errors :: "string list"

definition validateEnvironmentVariables :: "process_env \<Rightarrow> env_report" where
  "validateEnvironmentVariables penv =
     (let required = [''DATABASE_URL'', ''NEXTAUTH_URL'', ''NEXTAUTH_SECRET''];
          errors1 = map (\<lambda>envVar. ''Missing required environment variable: '' @ envVar)
                      (filter (\<lambda>envVar. \<not> truthy (penv envVar)) required);
          errors2 = errors1 @
            (if truthy (penv ''NEXTAUTH_SECRET'') \<and> length (str (penv ''NEXTAUTH_SECRET'')) < 32
             then [''NEXTAUTH_SECRET should be at least 32 characters long''] else []);
          errors3 = errors2 @
            (if truthy (penv ''DATABASE_URL'') \<and>
                \<not> prefix ''postgresql://'' (str (penv ''DATABASE_URL''))
             then [''DATABASE_URL should start with postgresql://''] else [])
      in \<lparr>valid = (errors3 = []), errors = errors3\<rparr>)"

text \<open>
  The validator of \<^verbatim>\<open>lib/env-validator.ts\<close> returns \<^verbatim>\<open>{valid, errors, warnings}\<close>. It
  parses URLs with the runtime's \<^verbatim>\<open>new URL(s)\<close>, which is not code of this repository:
  the parser is the parameter \<open>parse_url\<close>, \<open>None\<close> where \<^verbatim>\<open>new URL\<close> throws.
\<close>

record url_parts =
  protocol :: string
  hostname :: string

record EnvValidationResult = env_report +
  warnings :: "string list"

text \<open>
  The three regular expressions of \<^verbatim>\<open>weakPatterns\<close>:
  \<^verbatim>\<open>/^(test|dev|example|default)/i\<close>, \<^verbatim>\<open>/^(123|password|secret)/i\<close> and
  \<^verbatim>\<open>/^(.)\1{31,}$/\<close> (one character that is not a line terminator, then the same
  character at least 31 times, to the end).
\<close>

definition starts_with_any_ci :: "string list \<Rightarrow> string \<Rightarrow> bool" where
  "starts_with_any_ci ws s = list_ex (\<lambda>w. prefix w (map to_lower s)) ws"

definition all_same_character :: "string \<Rightarrow> bool" where
  "all_same_character s =
     (case s of
        [] \<Rightarrow> False
      | c # cs \<Rightarrow> c \<noteq> CHR 0x0A \<and> c \<noteq> CHR 0x0D \<and> 31 \<le> length cs \<and> list_all (\<lambda>d. d = c) cs)"

definition weak_secret :: "string \<Rightarrow> bool" where
  "weak_secret s =
     (starts_with_any_ci [''test'', ''dev'', ''example'', ''default''] s \<or>
      starts_with_any_ci [''123'', ''password'', ''secret''] s \<or>
      all_same_character s)"

definition database_url_check :: "(string \<Rightarrow> url_parts option) \<Rightarrow> process_env \<Rightarrow> string list \<times> string list" where
  "database_url_check parse_url penv =
     (if truthy (penv ''DATABASE_URL'') then
        (case parse_url (str (penv ''DATABASE_URL'')) of
           None \<Rightarrow> ([''DATABASE_URL is not a valid URL''], [])
         | Some dbUrl \<Rightarrow>
             ((if protocol dbUrl \<noteq> ''postgresql:''
               then [''DATABASE_URL must use postgresql:// protocol''] else []),
              (if (hostname dbUrl = [] \<or> hostname dbUrl = ''localhost'') \<and>
                  penv ''NODE_ENV'' = Some ''production''
               then [''DATABASE_URL should not use localhost in production''] else [])))
      else ([], []))"

definition nextauth_url_check :: "(string \<Rightarrow> url_parts option) \<Rightarrow> process_env \<Rightarrow> string list" where
  "nextauth_url_check parse_url penv =
     (if truthy (penv ''NEXTAUTH_URL'') then
        (case parse_url (str (penv ''NEXTAUTH_URL'')) of
           None \<Rightarrow> [''NEXTAUTH_URL is not a valid URL'']
         | Some authUrl \<Rightarrow>
             (if protocol authUrl \<noteq> ''http:'' \<and> protocol authUrl \<noteq> ''https:''
              then [''NEXTAUTH_URL must use http:// or https:// protocol''] else []) @
             (if penv ''NODE_ENV'' = Some ''production'' \<and> protocol authUrl \<noteq> ''https:''
              then [''NEXTAUTH_URL must use https:// in production''] else []))
      else [])"

definition nextauth_secret_check :: "process_env \<Rightarrow> string list" where
  "nextauth_secret_check penv =
     (if truthy (penv ''NEXTAUTH_SECRET'') then
        (if length (str (penv ''NEXTAUTH_SECRET'')) < 32
         then [''NEXTAUTH_SECRET must be at least 32 characters long''] else []) @
        (if weak_secret (str (penv ''NEXTAUTH_SECRET''))
         then [''NEXTAUTH_SECRET appears to be weak or default''] else [])
      else [])"

definition node_env_check :: "process_env \<Rightarrow> string list" where
  "node_env_check penv =
     (if truthy (penv ''NODE_ENV'') \<and>
         str (penv ''NODE_ENV'') \<notin> set [''development'', ''production'', ''test'']
      then [''NODE_ENV must be one of: development, production, test''] else [])"

definition validateEnvironmentVariables_env_validator ::
  "(string \<Rightarrow> url_parts option) \<Rightarrow> process_env \<Rightarrow> EnvValidationResult" where
  "validateEnvironmentVariables_env_validator parse_url penv =
     (let required = [''DATABASE_URL'', ''NEXTAUTH_URL'', ''NEXTAUTH_SECRET'', ''NODE_ENV''];
          recommended = [''REDIS_URL'', ''GOOGLE_ANALYTICS_ID'', ''FACEBOOK_PIXEL_ID''];
          errors1 = map (\<lambda>envVar. ''Missing required environment variable: '' @ envVar)
                      (filter (\<lambda>envVar. \<not> truthy (penv envVar)) required);
          warnings1 = map (\<lambda>envVar. ''Missing recommended environment variable: '' @ envVar)
                        (filter (\<lambda>envVar. \<not> truthy (penv envVar)) recommended);
          errors2 = errors1 @ fst (database_url_check parse_url penv);
          warnings2 = warnings1 @ snd (database_url_check parse_url penv);
          errors3 = errors2 @ nextauth_url_check parse_url penv;
          errors4 = errors3 @ nextauth_secret_check penv;
          errors5 = errors4 @ node_env_check penv
      in \<lparr>valid = (errors5 = []), errors = errors5, warnings = warnings2\<rparr>)"

text \<open>
  What \<^verbatim>\<open>new URL(s)\<close> gives on the strings the examples below use.
\<close>

definition sample_URL :: "string \<Rightarrow> url_parts option" where
  "sample_URL s =
     (if s = ''postgresql://db.internal:5432/app''
        then Some \<lparr>protocol = ''postgresql:'', hostname = ''db.internal''\<rparr>
      else if s = ''mysql://db.internal:3306/app''
        then Some \<lparr>protocol = ''mysql:'', hostname = ''db.internal''\<rparr>
      else if s = ''http://shop.example.com''
        then Some \<lparr>protocol = ''http:'', hostname = ''shop.example.com''\<rparr>
      else if s = ''https://shop.example.com''
        then Some \<lparr>protocol = ''https:'', hostname = ''shop.example.com''\<rparr>
      else None)"

section \<open>Sample inputs\<close>




text \<open>
  A state-changing request of a signed-in session, without a CSRF header.
\<close>

definition sample_session_request :: request where
  "sample_session_request =
     \<lparr>pathname = ''/api/upload'', url = ''https://shop.example.com/api/upload'',
      http_method = ''POST'', headers = Map.empty,
      cookies = [''next-auth.session-token'' \<mapsto> ''sess-1''],
      ip = Some ''203.0.113.7'', remoteAddress = None\<rparr>"

text \<open>A handler that counts its calls: the application state is the number of runs.\<close>

definition counting_handler :: "request \<Rightarrow> nat \<Rightarrow> string \<times> nat" where
  "counting_handler req n = (''done'', Suc n)"


text \<open>
  A complete environment, varying in the environment tag, the connection string, the
  base URL and the signing secret.
\<close>

definition sample_process_env :: "string \<Rightarrow> string \<Rightarrow> string \<Rightarrow> string \<Rightarrow> process_env" where
  "sample_process_env node_env database_url base_url secret =
     [''DATABASE_URL'' \<mapsto> database_url,
      ''NEXTAUTH_URL'' \<mapsto> base_url,
      ''NEXTAUTH_SECRET'' \<mapsto> secret,
      ''NODE_ENV'' \<mapsto> node_env,
      ''REDIS_URL'' \<mapsto> ''redis://cache.internal:6379'',
      ''GOOGLE_ANALYTICS_ID'' \<mapsto> ''G-0000000'',
      ''FACEBOOK_PIXEL_ID'' \<mapsto> ''0000000'']"


section \<open>Properties of the rate limiter\<close>

lemma cleanup_live:
  "st ident = Some w \<Longrightarrow> \<not> resetTime w < t \<Longrightarrow> cleanup t st ident = Some w"
  by (simp add: cleanup_def)

lemma cleanup_expired:
  "st ident = Some w \<Longrightarrow> resetTime w < t \<Longrightarrow> cleanup t st ident = None"
  by (simp add: cleanup_def)

lemma cleanup_absent:
  "st ident = None \<Longrightarrow> cleanup t st ident = None"
  by (simp add: cleanup_def)

lemma rateLimit_no_window:
  "cleanup t st ident = None \<Longrightarrow>
   rateLimit ident maxRequests t st =
     (allowed_result (maxRequests - 1),
      (cleanup t st)(ident \<mapsto> \<lparr>count = 1, resetTime = t + RATE_LIMIT_WINDOW\<rparr>))"
  by (simp add: rateLimit_def allowed_result_def)

lemma rateLimit_at_limit:
  "cleanup t st ident = Some w \<Longrightarrow> maxRequests \<le> count w \<Longrightarrow>
   rateLimit ident maxRequests t st = (rejected_result (resetTime w), cleanup t st)"
  by (simp add: rateLimit_def rejected_result_def)

lemma rateLimit_below_limit:
  "cleanup t st ident = Some w \<Longrightarrow> count w < maxRequests \<Longrightarrow>
   rateLimit ident maxRequests t st =
     (allowed_result (maxRequests - (count w + 1)),
      (cleanup t st)(ident \<mapsto> w\<lparr>count := count w + 1\<rparr>))"
  by (simp add: rateLimit_def allowed_result_def)

text \<open>
  The limiter written out in the middleware for API routes is \<^verbatim>\<open>rateLimit\<close> at the
  limit \<^verbatim>\<open>RATE_LIMIT_MAX_REQUESTS\<close> over its own table: it goes on where \<^verbatim>\<open>rateLimit\<close>
  succeeds and answers 429 where it fails, with the same table afterwards.
\<close>

lemma api_rate_check_rateLimit:
  "api_rate_check k t st =
     (if success (fst (rateLimit k RATE_LIMIT_MAX_REQUESTS t st)) then None
      else Some (json_response
             (JObject [(''success'', JBool False), (''error'', JString ''Rate limit exceeded'')])
             429),
      snd (rateLimit k RATE_LIMIT_MAX_REQUESTS t st))"
  by (simp add: api_rate_check_def rateLimit_def Let_def split: option.splits)

text \<open>
  A run of calls that all arrive while the window is live: the call that finds the
  count at \<open>c + k\<close> is allowed while that is below the limit, and refused from then on.
\<close>

lemma rateLimit_calls_live:
  "st ident = Some \<lparr>count = c, resetTime = r\<rparr> \<Longrightarrow> list_all (\<lambda>t. t \<le> r) ts \<Longrightarrow>
   fst (rateLimit_calls ident limit ts st) =
     map (\<lambda>k. if c + int k < limit then allowed_result (limit - (c + int k + 1))
               else rejected_result r) [0..<length ts]"
proof (induction ts arbitrary: c st)
  case Nil
  then show ?case by simp
next
  case (Cons t ts)
  let ?w = "\<lparr>count = c, resetTime = r\<rparr>"
  from Cons.prems have live: "cleanup t st ident = Some ?w"
    by (simp add: cleanup_live)
  from Cons.prems have rest: "list_all (\<lambda>t. t \<le> r) ts" by simp
  have shift: "[0..<length (t # ts)] = 0 # map Suc [0..<length ts]"
    by (simp add: upt_conv_Cons map_Suc_upt del: upt_Suc)
  show ?case
  proof (cases "c < limit")
    case True
    let ?st1 = "(cleanup t st)(ident \<mapsto> \<lparr>count = c + 1, resetTime = r\<rparr>)"
    from True live have step: "rateLimit ident limit t st =
        (allowed_result (limit - (c + 1)), ?st1)"
      by (simp add: rateLimit_below_limit)
    have "?st1 ident = Some \<lparr>count = c + 1, resetTime = r\<rparr>" by simp
    note ih = Cons.IH [of ?st1 "c + 1", OF this rest]
    have eq: "\<And>k. c + 1 + int k = c + int (Suc k)" by simp
    have tl: "fst (rateLimit_calls ident limit ts ?st1) =
        map (\<lambda>k. if c + int (Suc k) < limit then allowed_result (limit - (c + int (Suc k) + 1))
                  else rejected_result r) [0..<length ts]"
      using ih unfolding eq .
    have "fst (rateLimit_calls ident limit (t # ts) st) =
        allowed_result (limit - (c + 1)) # fst (rateLimit_calls ident limit ts ?st1)"
      by (simp only: rateLimit_calls.simps step Let_def split_beta fst_conv snd_conv)
    with tl True show ?thesis
      unfolding shift by (simp add: o_def)
  next
    case False
    with live have step: "rateLimit ident limit t st = (rejected_result r, cleanup t st)"
      by (simp add: rateLimit_at_limit)
    from False have never: "\<And>k. \<not> c + int k < limit" by simp
    from Cons.IH [of "cleanup t st" c, OF live rest]
    have tl: "fst (rateLimit_calls ident limit ts (cleanup t st)) =
        map (\<lambda>k. rejected_result r) [0..<length ts]"
      by (simp add: never)
    have "fst (rateLimit_calls ident limit (t # ts) st) =
        rejected_result r # fst (rateLimit_calls ident limit ts (cleanup t st))"
      by (simp only: rateLimit_calls.simps step Let_def split_beta fst_conv snd_conv)
    with tl never show ?thesis
      unfolding shift by (simp add: o_def)
  qed
qed

lemma rateLimit_calls_fresh:
  assumes "cleanup t0 st ident = None"
    and "list_all (\<lambda>t. t \<le> t0 + RATE_LIMIT_WINDOW) ts"
  shows "fst (rateLimit_calls ident limit (t0 # ts) st) =
     allowed_result (limit - 1) #
     map (\<lambda>k. if int (Suc k) < limit then allowed_result (limit - (int (Suc k) + 1))
               else rejected_result (t0 + RATE_LIMIT_WINDOW)) [0..<length ts]"
proof -
  let ?st1 = "(cleanup t0 st)(ident \<mapsto> \<lparr>count = 1, resetTime = t0 + RATE_LIMIT_WINDOW\<rparr>)"
  from assms(1) have step: "rateLimit ident limit t0 st = (allowed_result (limit - 1), ?st1)"
    by (rule rateLimit_no_window)
  have "?st1 ident = Some \<lparr>count = 1, resetTime = t0 + RATE_LIMIT_WINDOW\<rparr>" by simp
  note run = rateLimit_calls_live [where st = ?st1 and c = 1 and limit = limit, OF this assms(2)]
  have eq: "\<And>k. 1 + int k = int (Suc k)" by simp
  have tl: "fst (rateLimit_calls ident limit ts ?st1) =
      map (\<lambda>k. if int (Suc k) < limit then allowed_result (limit - (int (Suc k) + 1))
                else rejected_result (t0 + RATE_LIMIT_WINDOW)) [0..<length ts]"
    using run unfolding eq .
  have "fst (rateLimit_calls ident limit (t0 # ts) st) =
      allowed_result (limit - 1) # fst (rateLimit_calls ident limit ts ?st1)"
    by (simp only: rateLimit_calls.simps step Let_def split_beta fst_conv snd_conv)
  with tl show ?thesis by simp
qed

text \<open>
  Claim C1, as the code has it. One call of \<^verbatim>\<open>rateLimit\<close> at clock reading \<open>t\<close>: with no
  entry for the identifier, or one whose \<^verbatim>\<open>resetTime\<close> is before \<open>t\<close>, it stores a window
  with count 1 and \<^verbatim>\<open>resetTime = t + RATE_LIMIT_WINDOW\<close> and allows the call with
  \<^verbatim>\<open>remaining = limit - 1\<close>; with a live entry whose count is below the limit it
  increments the count and allows the call with \<^verbatim>\<open>remaining = limit - count\<close>; with a
  live entry whose count has reached the limit it returns
  \<^verbatim>\<open>{success: false, error, resetTime}\<close>, an object without a \<^verbatim>\<open>remaining\<close> field, whose
  \<^verbatim>\<open>resetTime\<close> is the stored one. For a limit of at least 1 and a run of calls that
  starts a window at \<open>t\<close> and stays inside it (no later than \<open>t + RATE_LIMIT_WINDOW\<close>),
  call number \<open>j\<close> (from 0) is allowed with \<^verbatim>\<open>remaining = limit - (j + 1)\<close> exactly when
  \<open>j < limit\<close>, and every later call is refused with
  \<^verbatim>\<open>resetTime = t + RATE_LIMIT_WINDOW\<close>: the first \<open>limit\<close> calls are allowed and call
  \<open>limit + 1\<close> is refused.
\<close>

theorem rateLimit_fixed_window:
  "((case st ident of None \<Rightarrow> True | Some w \<Rightarrow> resetTime w < t) \<longrightarrow>
      rateLimit ident limit t st =
        (allowed_result (limit - 1),
         (cleanup t st)(ident \<mapsto> \<lparr>count = 1, resetTime = t + RATE_LIMIT_WINDOW\<rparr>))) \<and>
   (\<forall>w. st ident = Some w \<and> \<not> resetTime w < t \<and> count w < limit \<longrightarrow>
      rateLimit ident limit t st =
        (allowed_result (limit - (count w + 1)),
         (cleanup t st)(ident \<mapsto> w\<lparr>count := count w + 1\<rparr>))) \<and>
   (\<forall>w. st ident = Some w \<and> \<not> resetTime w < t \<and> limit \<le> count w \<longrightarrow>
      rateLimit ident limit t st = (rejected_result (resetTime w), cleanup t st)) \<and>
   (1 \<le> limit \<and> (case st ident of None \<Rightarrow> True | Some w \<Rightarrow> resetTime w < t) \<and>
    list_all (\<lambda>u. u \<le> t + RATE_LIMIT_WINDOW) ts \<longrightarrow>
      fst (rateLimit_calls ident limit (t # ts) st) =
        map (\<lambda>j. if int j < limit then allowed_result (limit - (int j + 1))
                  else rejected_result (t + RATE_LIMIT_WINDOW)) [0..<Suc (length ts)])"
proof (intro conjI impI allI)
  assume "case st ident of None \<Rightarrow> True | Some w \<Rightarrow> resetTime w < t"
  then have "cleanup t st ident = None"
    by (auto simp: cleanup_def split: option.splits)
  then show "rateLimit ident limit t st =
        (allowed_result (limit - 1),
         (cleanup t st)(ident \<mapsto> \<lparr>count = 1, resetTime = t + RATE_LIMIT_WINDOW\<rparr>))"
    by (rule rateLimit_no_window)
next
  fix w
  assume "st ident = Some w \<and> \<not> resetTime w < t \<and> count w < limit"
  then show "rateLimit ident limit t st =
        (allowed_result (limit - (count w + 1)),
         (cleanup t st)(ident \<mapsto> w\<lparr>count := count w + 1\<rparr>))"
    by (simp add: rateLimit_below_limit cleanup_live)
next
  fix w
  assume "st ident = Some w \<and> \<not> resetTime w < t \<and> limit \<le> count w"
  then show "rateLimit ident limit t st = (rejected_result (resetTime w), cleanup t st)"
    by (simp add: rateLimit_at_limit cleanup_live)
next
  assume a: "1 \<le> limit \<and> (case st ident of None \<Rightarrow> True | Some w \<Rightarrow> resetTime w < t) \<and>
    list_all (\<lambda>u. u \<le> t + RATE_LIMIT_WINDOW) ts"
  then have none: "cleanup t st ident = None"
    by (auto simp: cleanup_def split: option.splits)
  from a have win: "list_all (\<lambda>u. u \<le> t + RATE_LIMIT_WINDOW) ts" by simp
  have shift: "[0..<Suc (length ts)] = 0 # map Suc [0..<length ts]"
    by (simp add: upt_conv_Cons map_Suc_upt del: upt_Suc)
  from a have first: "(0::int) < limit" by simp
  show "fst (rateLimit_calls ident limit (t # ts) st) =
        map (\<lambda>j. if int j < limit then allowed_result (limit - (int j + 1))
                  else rejected_result (t + RATE_LIMIT_WINDOW)) [0..<Suc (length ts)]"
    unfolding shift rateLimit_calls_fresh [OF none win] using first by (simp add: o_def)
qed

text \<open>
  The run at limit 2 from an empty table: two calls allowed, the third and a fourth at
  the last instant of the window refused.
\<close>

theorem rateLimit_fixed_window_witness:
  "(1::int) \<le> 2 \<and>
   (case (Map.empty :: rate_store) ''203.0.113.7'' of None \<Rightarrow> True | Some w \<Rightarrow> resetTime w < 1000) \<and>
   list_all (\<lambda>u. u \<le> 1000 + RATE_LIMIT_WINDOW) [1001, 2000, 901000] \<and>
   fst (rateLimit_calls ''203.0.113.7'' 2 [1000, 1001, 2000, 901000] Map.empty) =
     [allowed_result 1, allowed_result 0, rejected_result 901000, rejected_result 901000]"
proof -
  have h: "(1::int) \<le> 2 \<and>
     (case (Map.empty :: rate_store) ''203.0.113.7'' of None \<Rightarrow> True | Some w \<Rightarrow> resetTime w < 1000) \<and>
     list_all (\<lambda>u. u \<le> 1000 + RATE_LIMIT_WINDOW) [1001, 2000, 901000]"
    by (simp add: RATE_LIMIT_WINDOW_def)
  with rateLimit_fixed_window [where st = Map.empty and ident = "''203.0.113.7''" and t = 1000
      and limit = 2 and ts = "[1001, 2000, 901000]"]
  have "fst (rateLimit_calls ''203.0.113.7'' 2 (1000 # [1001, 2000, 901000]) Map.empty) =
        map (\<lambda>j. if int j < 2 then allowed_result (2 - (int j + 1))
                  else rejected_result (1000 + RATE_LIMIT_WINDOW)) [0..<Suc (length [1001::int, 2000, 901000])]"
    by blast
  then have "fst (rateLimit_calls ''203.0.113.7'' 2 [1000, 1001, 2000, 901000] Map.empty) =
     [allowed_result 1, allowed_result 0, rejected_result 901000, rejected_result 901000]"
    by (simp add: RATE_LIMIT_WINDOW_def upt_rec)
  with h show ?thesis by blast
qed

text \<open>
  Claim C1 as stated fails twice: the refused call's result has no \<^verbatim>\<open>remaining\<close> field
  (so \<^verbatim>\<open>remaining\<close> is not 0), and with a limit of 0 the first call, which is call
  \<open>limit + 1\<close>, is allowed.
\<close>

theorem rateLimit_rejected_shape_counterexample:
  "success (fst (rateLimit ''203.0.113.7'' 2 1500
      (Map.empty(''203.0.113.7'' \<mapsto> \<lparr>count = 2, resetTime = 901000\<rparr>)))) = False \<and>
   remaining (fst (rateLimit ''203.0.113.7'' 2 1500
      (Map.empty(''203.0.113.7'' \<mapsto> \<lparr>count = 2, resetTime = 901000\<rparr>)))) \<noteq> Some 0 \<and>
   success (fst (rateLimit ''203.0.113.7'' 0 1500 Map.empty)) = True"
  by (simp add: rateLimit_def cleanup_def)

text \<open>
  Claim C6, as the code has it. For a window opened at \<open>t0\<close>, whose entry holds
  \<^verbatim>\<open>resetTime = t0 + RATE_LIMIT_WINDOW\<close>: a call strictly after that instant replaces the
  entry by a fresh window with count 1 and is allowed with \<^verbatim>\<open>remaining = limit - 1\<close>,
  whatever the old count was; a call at that instant or before it still meets the old
  window, and is refused when the count has reached the limit and counted otherwise.
\<close>

theorem rateLimit_window_expiry:
  "st ident = Some \<lparr>count = c, resetTime = t0 + RATE_LIMIT_WINDOW\<rparr> \<Longrightarrow>
   (t0 + RATE_LIMIT_WINDOW < t \<longrightarrow>
      rateLimit ident limit t st =
        (allowed_result (limit - 1),
         (cleanup t st)(ident \<mapsto> \<lparr>count = 1, resetTime = t + RATE_LIMIT_WINDOW\<rparr>))) \<and>
   (t \<le> t0 + RATE_LIMIT_WINDOW \<longrightarrow>
      rateLimit ident limit t st =
        (if limit \<le> c then (rejected_result (t0 + RATE_LIMIT_WINDOW), cleanup t st)
         else (allowed_result (limit - (c + 1)),
               (cleanup t st)(ident \<mapsto> \<lparr>count = c + 1, resetTime = t0 + RATE_LIMIT_WINDOW\<rparr>))))"
  by (simp add: rateLimit_def cleanup_def allowed_result_def rejected_result_def)

text \<open>
  A window opened at 0 with its count at the limit 2, met one millisecond after its end.
\<close>

theorem rateLimit_window_expiry_witness:
  "rateLimit ''203.0.113.7'' 2 900001
     (Map.empty(''203.0.113.7'' \<mapsto> \<lparr>count = 2, resetTime = 0 + RATE_LIMIT_WINDOW\<rparr>)) =
   (allowed_result 1,
    (cleanup 900001 (Map.empty(''203.0.113.7'' \<mapsto> \<lparr>count = 2, resetTime = 0 + RATE_LIMIT_WINDOW\<rparr>)))
      (''203.0.113.7'' \<mapsto> \<lparr>count = 1, resetTime = 900001 + RATE_LIMIT_WINDOW\<rparr>))"
proof -
  have h: "(Map.empty(''203.0.113.7'' \<mapsto> \<lparr>count = 2, resetTime = 0 + RATE_LIMIT_WINDOW\<rparr>)) ''203.0.113.7''
      = Some \<lparr>count = 2, resetTime = 0 + RATE_LIMIT_WINDOW\<rparr>" by simp
  have lt: "0 + RATE_LIMIT_WINDOW < 900001" by (simp add: RATE_LIMIT_WINDOW_def)
  from rateLimit_window_expiry [where st = "Map.empty(''203.0.113.7'' \<mapsto> \<lparr>count = 2, resetTime = 0 + RATE_LIMIT_WINDOW\<rparr>)"
      and ident = "''203.0.113.7''" and c = 2 and ?t0.0 = 0 and t = 900001 and limit = 2, OF h] lt
  show ?thesis by simp
qed

text \<open>
  Claim C6 as stated fails at the boundary: at \<open>now = windowStart + windowLength\<close> the
  old window, its count at the limit, is kept and the call is refused.
\<close>

theorem rateLimit_window_boundary_counterexample:
  "0 + RATE_LIMIT_WINDOW = 900000 \<and>
   rateLimit ''203.0.113.7'' 2 900000
     (Map.empty(''203.0.113.7'' \<mapsto> \<lparr>count = 2, resetTime = 0 + RATE_LIMIT_WINDOW\<rparr>)) =
   (rejected_result 900000,
    Map.empty(''203.0.113.7'' \<mapsto> \<lparr>count = 2, resetTime = 900000\<rparr>))"
  by (auto simp add: rateLimit_def cleanup_def rejected_result_def RATE_LIMIT_WINDOW_def)

text \<open>
  Refused calls leave the entry as it is, however many of them arrive inside the window.
\<close>

lemma rateLimit_calls_rejected:
  "st ident = Some w \<Longrightarrow> limit \<le> count w \<Longrightarrow> list_all (\<lambda>u. u \<le> resetTime w) ts \<Longrightarrow>
   list_all (\<lambda>r. r = rejected_result (resetTime w)) (fst (rateLimit_calls ident limit ts st)) \<and>
   snd (rateLimit_calls ident limit ts st) ident = Some w"
proof (induction ts arbitrary: st)
  case Nil
  then show ?case by simp
next
  case (Cons t ts)
  from Cons.prems have live: "cleanup t st ident = Some w"
    by (simp add: cleanup_live)
  with Cons.prems have step: "rateLimit ident limit t st = (rejected_result (resetTime w), cleanup t st)"
    by (simp add: rateLimit_at_limit)
  from Cons.prems have rest: "list_all (\<lambda>u. u \<le> resetTime w) ts" by simp
  from Cons.IH [of "cleanup t st", OF live Cons.prems(2) rest] step show ?case
    by (simp add: split_beta)
qed

text \<open>
  Claim C10. When the identifier's entry is live at \<open>t\<close> and its count has reached the
  limit, the call returns \<^verbatim>\<open>success: false\<close> and the entry afterwards is the entry before:
  same count, same \<^verbatim>\<open>resetTime\<close>. The same holds after any run of calls that all arrive
  no later than the entry's \<^verbatim>\<open>resetTime\<close>: every one is refused and the entry is unchanged.
\<close>

theorem rateLimit_rejected_entry_unchanged:
  "st ident = Some w \<Longrightarrow> limit \<le> count w \<Longrightarrow>
   (\<not> resetTime w < t \<longrightarrow>
      fst (rateLimit ident limit t st) = rejected_result (resetTime w) \<and>
      success (fst (rateLimit ident limit t st)) = False \<and>
      snd (rateLimit ident limit t st) ident = Some w) \<and>
   (list_all (\<lambda>u. u \<le> resetTime w) ts \<longrightarrow>
      list_all (\<lambda>r. r = rejected_result (resetTime w)) (fst (rateLimit_calls ident limit ts st)) \<and>
      snd (rateLimit_calls ident limit ts st) ident = Some w)"
  using rateLimit_calls_rejected [where st = st and ident = ident and w = w and limit = limit and ts = ts]
  by (simp add: rateLimit_at_limit cleanup_live rejected_result_def)

text \<open>
  An entry at the limit 2, met at 1500 and then three times more up to its last instant.
\<close>

theorem rateLimit_rejected_entry_unchanged_witness:
  "snd (rateLimit ''203.0.113.7'' 2 1500
      (Map.empty(''203.0.113.7'' \<mapsto> \<lparr>count = 2, resetTime = 901000\<rparr>))) ''203.0.113.7''
     = Some \<lparr>count = 2, resetTime = 901000\<rparr> \<and>
   success (fst (rateLimit ''203.0.113.7'' 2 1500
      (Map.empty(''203.0.113.7'' \<mapsto> \<lparr>count = 2, resetTime = 901000\<rparr>)))) = False \<and>
   snd (rateLimit_calls ''203.0.113.7'' 2 [1500, 1501, 901000]
      (Map.empty(''203.0.113.7'' \<mapsto> \<lparr>count = 2, resetTime = 901000\<rparr>))) ''203.0.113.7''
     = Some \<lparr>count = 2, resetTime = 901000\<rparr>"
proof -
  let ?w = "\<lparr>count = 2, resetTime = 901000\<rparr>"
  let ?st = "Map.empty(''203.0.113.7'' \<mapsto> ?w)"
  have h1: "?st ''203.0.113.7'' = Some ?w" by simp
  have h2: "(2::int) \<le> count ?w" by simp
  have h3: "\<not> resetTime ?w < 1500" by simp
  have h4: "list_all (\<lambda>u. u \<le> resetTime ?w) [1500, 1501, 901000]" by simp
  note th = rateLimit_rejected_entry_unchanged [where st = ?st and ident = "''203.0.113.7''"
      and w = ?w and limit = 2 and t = 1500 and ts = "[1500, 1501, 901000]", OF h1 h2]
  from th h3 have a: "success (fst (rateLimit ''203.0.113.7'' 2 1500 ?st)) = False \<and>
      snd (rateLimit ''203.0.113.7'' 2 1500 ?st) ''203.0.113.7'' = Some ?w"
    by blast
  from th h4 have b: "snd (rateLimit_calls ''203.0.113.7'' 2 [1500, 1501, 901000] ?st) ''203.0.113.7''
      = Some ?w"
    by blast
  from a b show ?thesis by blast
qed


section \<open>Properties of client identity\<close>

text \<open>
  Without a truthy forwarded-for header the identity is never empty: the real-IP
  header, the source address and the literal \<^verbatim>\<open>unknown\<close> are each read under a truthiness
  test.
\<close>

lemma getClientIP_without_forwarded:
  "\<not> truthy (headers req ''x-forwarded-for'') \<Longrightarrow> getClientIP req \<noteq> []"
  by (auto simp: getClientIP_def Let_def truthy_def js_or_def str_def split: option.splits)

text \<open>
  The precedence: the first comma-separated entry of a non-empty forwarded-for header,
  trimmed; else a non-empty real-IP header; else a non-empty \<^verbatim>\<open>request.ip\<close>; else a
  non-empty remote address; else \<^verbatim>\<open>unknown\<close>.
\<close>

lemma getClientIP_precedence:
  "getClientIP req =
     (case headers req ''x-forwarded-for'' of
        Some (c # cs) \<Rightarrow> trim (split_comma_first (c # cs))
      | _ \<Rightarrow>
        (case headers req ''x-real-ip'' of
           Some (c # cs) \<Rightarrow> c # cs
         | _ \<Rightarrow>
           (case ip req of
              Some (c # cs) \<Rightarrow> c # cs
            | _ \<Rightarrow>
              (case remoteAddress req of
                 Some (c # cs) \<Rightarrow> c # cs
               | _ \<Rightarrow> ''unknown''))))"
  by (auto simp: getClientIP_def Let_def truthy_def js_or_def str_def split: option.splits list.splits)

text \<open>
  Claim C7 says the identity is never the empty string. With a forwarded-for header
  whose first entry is blank, as in \<^verbatim>\<open>X-Forwarded-For: , 203.0.113.7\<close>, the function
  returns the empty string, although the request has a source address.
\<close>

theorem getClientIP_blank_first_entry:
  "getClientIP \<lparr>pathname = ''/api/products'', url = ''https://shop.example.com/api/products'',
       http_method = ''GET'', headers = [''x-forwarded-for'' \<mapsto> '', 203.0.113.7''],
       cookies = Map.empty, ip = Some ''198.51.100.4'', remoteAddress = None\<rparr> = []"
  by (simp add: getClientIP_def truthy_def str_def split_comma_first_def trim_def)

section \<open>Properties of the middleware\<close>

text \<open>
  Claim C4 says every response carries the security headers. The redirect of an
  unauthenticated administrative request, the 429 of a limited API request and the
  response of a public page (no entry copied from the \<^verbatim>\<open>Headers\<close> object) have no
  \<^verbatim>\<open>X-Frame-Options\<close> header; the forwarded response of the login page has it.
\<close>

theorem middleware_responses_without_security_headers:
  "headers_get (resp_headers (fst (middleware
      \<lparr>pathname = ''/admin/products'', url = ''https://shop.example.com/admin/products'',
       http_method = ''GET'', headers = Map.empty, cookies = Map.empty,
       ip = Some ''203.0.113.7'', remoteAddress = None\<rparr>
      \<lparr>env_now = 1700000000000, env_getToken = None,
       env_intlResponse = \<lparr>action = Forward, resp_headers = Map.empty\<rparr>, env_entries = []\<rparr>
      Map.empty))) ''X-Frame-Options'' = None \<and>
   headers_get (resp_headers (fst (middleware
      \<lparr>pathname = ''/api/products'', url = ''https://shop.example.com/api/products'',
       http_method = ''GET'', headers = Map.empty, cookies = Map.empty,
       ip = Some ''203.0.113.7'', remoteAddress = None\<rparr>
      \<lparr>env_now = 1700000000000, env_getToken = None,
       env_intlResponse = \<lparr>action = Forward, resp_headers = Map.empty\<rparr>, env_entries = []\<rparr>
      (Map.empty(''api:203.0.113.7'' \<mapsto> \<lparr>count = 100, resetTime = 1700000600000\<rparr>))))) ''X-Frame-Options'' = None \<and>
   headers_get (resp_headers (fst (middleware
      \<lparr>pathname = ''/products'', url = ''https://shop.example.com/products'',
       http_method = ''GET'', headers = Map.empty, cookies = Map.empty,
       ip = Some ''203.0.113.7'', remoteAddress = None\<rparr>
      \<lparr>env_now = 1700000000000, env_getToken = None,
       env_intlResponse = \<lparr>action = Forward, resp_headers = Map.empty\<rparr>, env_entries = []\<rparr>
      Map.empty))) ''X-Frame-Options'' = None \<and>
   headers_get (resp_headers (fst (middleware
      \<lparr>pathname = ''/admin/login'', url = ''https://shop.example.com/admin/login'',
       http_method = ''GET'', headers = Map.empty, cookies = Map.empty,
       ip = Some ''203.0.113.7'', remoteAddress = None\<rparr>
      \<lparr>env_now = 1700000000000, env_getToken = None,
       env_intlResponse = \<lparr>action = Forward, resp_headers = Map.empty\<rparr>, env_entries = []\<rparr>
      Map.empty))) ''X-Frame-Options'' = Some ''DENY''"
  by code_simp







section \<open>Properties of the CSRF tokens\<close>

lemma validateCSRFToken_result:
  "fst (validateCSRFToken req tok t st) =
     (case js_or (cookies req ''next-auth.session-token'')
                 (cookies req ''__Secure-next-auth.session-token'') of
        None \<Rightarrow> False
      | Some sessionKey \<Rightarrow>
          sessionKey \<noteq> [] \<and>
          (case st sessionKey of
             None \<Rightarrow> False
           | Some stored \<Rightarrow> token stored = tok \<and> t \<le> expires stored))"
  by (auto simp: validateCSRFToken_def split: option.splits)

lemma setCSRFToken_entry:
  "snd (setCSRFToken sessionKey fresh t st) sessionKey =
     Some \<lparr>token = fresh, expires = t + 24 * 60 * 60 * 1000\<rparr>"
  by (simp add: setCSRFToken_def csrf_sweep_def)

text \<open>
  Claim C2, as the code has it. Validation returns true exactly when the request
  carries a non-empty session cookie, the table holds a token under that cookie's
  value, the stored token equals the presented one, and \<open>now \<le> expires\<close> (the entry
  is dropped only when \<open>now > expires\<close>). Consequently, once a token of another value
  has been issued for the session, the token issued before is refused; and a token
  just issued is accepted for the next 24 hours, the last instant included.
\<close>

theorem validateCSRFToken_characterised:
  "(fst (validateCSRFToken req tok t st) =
     (case js_or (cookies req ''next-auth.session-token'')
                 (cookies req ''__Secure-next-auth.session-token'') of
        None \<Rightarrow> False
      | Some sessionKey \<Rightarrow>
          sessionKey \<noteq> [] \<and>
          (case st sessionKey of
             None \<Rightarrow> False
           | Some stored \<Rightarrow> token stored = tok \<and> t \<le> expires stored))) \<and>
   (\<forall>sessionKey fresh t0.
      js_or (cookies req ''next-auth.session-token'')
            (cookies req ''__Secure-next-auth.session-token'') = Some sessionKey \<and>
      fresh \<noteq> tok \<longrightarrow>
      fst (validateCSRFToken req tok t (snd (setCSRFToken sessionKey fresh t0 st))) = False) \<and>
   (\<forall>sessionKey t0.
      js_or (cookies req ''next-auth.session-token'')
            (cookies req ''__Secure-next-auth.session-token'') = Some sessionKey \<and>
      sessionKey \<noteq> [] \<and> t \<le> t0 + 24 * 60 * 60 * 1000 \<longrightarrow>
      fst (validateCSRFToken req tok t (snd (setCSRFToken sessionKey tok t0 st))) = True)"
proof (intro conjI allI impI)
  show "fst (validateCSRFToken req tok t st) =
     (case js_or (cookies req ''next-auth.session-token'')
                 (cookies req ''__Secure-next-auth.session-token'') of
        None \<Rightarrow> False
      | Some sessionKey \<Rightarrow>
          sessionKey \<noteq> [] \<and>
          (case st sessionKey of
             None \<Rightarrow> False
           | Some stored \<Rightarrow> token stored = tok \<and> t \<le> expires stored))"
    by (rule validateCSRFToken_result)
next
  fix sessionKey fresh t0
  assume a: "js_or (cookies req ''next-auth.session-token'')
            (cookies req ''__Secure-next-auth.session-token'') = Some sessionKey \<and>
      fresh \<noteq> tok"
  then show "fst (validateCSRFToken req tok t (snd (setCSRFToken sessionKey fresh t0 st))) = False"
    unfolding validateCSRFToken_result by (simp add: setCSRFToken_entry)
next
  fix sessionKey t0
  assume a: "js_or (cookies req ''next-auth.session-token'')
            (cookies req ''__Secure-next-auth.session-token'') = Some sessionKey \<and>
      sessionKey \<noteq> [] \<and> t \<le> t0 + 24 * 60 * 60 * 1000"
  then show "fst (validateCSRFToken req tok t (snd (setCSRFToken sessionKey tok t0 st))) = True"
    unfolding validateCSRFToken_result by (simp add: setCSRFToken_entry)
qed


text \<open>
  Session \<^verbatim>\<open>sess-1\<close>: the token issued at 1000 is accepted at 2000, and refused at 2000
  once another token has been issued at 1500.
\<close>

theorem validateCSRFToken_characterised_witness:
  "js_or (cookies sample_session_request ''next-auth.session-token'')
         (cookies sample_session_request ''__Secure-next-auth.session-token'') = Some ''sess-1'' \<and>
   ''token-b'' \<noteq> ''token-a'' \<and>
   fst (validateCSRFToken sample_session_request ''token-a'' 2000
          (snd (setCSRFToken ''sess-1'' ''token-a'' 1000 Map.empty))) = True \<and>
   fst (validateCSRFToken sample_session_request ''token-a'' 2000
          (snd (setCSRFToken ''sess-1'' ''token-b'' 1500
             (snd (setCSRFToken ''sess-1'' ''token-a'' 1000 Map.empty))))) = False"
proof -
  have k: "js_or (cookies sample_session_request ''next-auth.session-token'')
         (cookies sample_session_request ''__Secure-next-auth.session-token'') = Some ''sess-1''"
    by (simp add: sample_session_request_def js_or_def truthy_def)
  have d: "''token-b'' \<noteq> ''token-a''" by simp
  have ne: "''sess-1'' \<noteq> []" by simp
  have w: "(2000::int) \<le> 1000 + 24 * 60 * 60 * 1000" by simp
  note th = validateCSRFToken_characterised [where req = sample_session_request and tok = "''token-a''"
      and t = 2000]
  note issued = th [where st = Map.empty, THEN conjunct2, THEN conjunct2, rule_format,
      of "''sess-1''" 1000]
  note reissued = th [where st = "snd (setCSRFToken ''sess-1'' ''token-a'' 1000 Map.empty)",
      THEN conjunct2, THEN conjunct1, rule_format, of "''sess-1''" "''token-b''" 1500]
  have 1: "fst (validateCSRFToken sample_session_request ''token-a'' 2000
          (snd (setCSRFToken ''sess-1'' ''token-a'' 1000 Map.empty))) = True"
    by (rule issued) (intro conjI k ne w)
  have 2: "fst (validateCSRFToken sample_session_request ''token-a'' 2000
          (snd (setCSRFToken ''sess-1'' ''token-b'' 1500
             (snd (setCSRFToken ''sess-1'' ''token-a'' 1000 Map.empty))))) = False"
    by (rule reissued) (intro conjI k d)
  show ?thesis by (intro conjI k d 1 2)
qed

text \<open>
  Claim C2 as stated fails at the boundary: at \<open>now = expiresAt\<close>, where \<open>now < expiresAt\<close>
  is false, validation returns true.
\<close>

theorem validateCSRFToken_expiry_boundary_counterexample:
  "\<not> (5000::int) < expires \<lparr>token = ''token-a'', expires = 5000\<rparr> \<and>
   fst (validateCSRFToken sample_session_request ''token-a'' 5000
          (Map.empty(''sess-1'' \<mapsto> \<lparr>token = ''token-a'', expires = 5000\<rparr>))) = True"
  by (simp add: validateCSRFToken_def sample_session_request_def js_or_def truthy_def)

text \<open>
  Claim C8, as the code has it. The wrapper skips the check for the method \<^verbatim>\<open>GET\<close> and
  for no other method. For every other method: without a token header (or with an empty
  one) it answers 403 with \<^verbatim>\<open>{success: false, error: 'CSRF token missing'}\<close>; with a
  token that fails validation it answers 403 with
  \<^verbatim>\<open>{success: false, error: 'Invalid CSRF token'}\<close>; in both cases the handler is not
  run, the application state being what it was. With a valid token the handler runs.
\<close>

theorem withCSRFProtection_gate:
  "(http_method req = ''GET'' \<longrightarrow>
      withCSRFProtection handler req t st app =
        (Handled (fst (handler req app)), st, snd (handler req app))) \<and>
   (http_method req \<noteq> ''GET'' \<and> \<not> truthy (headers req ''x-csrf-token'') \<longrightarrow>
      withCSRFProtection handler req t st app =
        (Refused \<lparr>action = Respond 403
                    (JObject [(''success'', JBool False), (''error'', JString ''CSRF token missing'')]),
                  resp_headers = headers_set ''content-type'' ''application/json'' Map.empty\<rparr>,
         st, app)) \<and>
   (\<forall>tk. http_method req \<noteq> ''GET'' \<and> headers req ''x-csrf-token'' = Some tk \<and> tk \<noteq> [] \<and>
         \<not> fst (validateCSRFToken req tk t st) \<longrightarrow>
      withCSRFProtection handler req t st app =
        (Refused \<lparr>action = Respond 403
                    (JObject [(''success'', JBool False), (''error'', JString ''Invalid CSRF token'')]),
                  resp_headers = headers_set ''content-type'' ''application/json'' Map.empty\<rparr>,
         snd (validateCSRFToken req tk t st), app)) \<and>
   (\<forall>tk. http_method req \<noteq> ''GET'' \<and> headers req ''x-csrf-token'' = Some tk \<and> tk \<noteq> [] \<and>
         fst (validateCSRFToken req tk t st) \<longrightarrow>
      withCSRFProtection handler req t st app =
        (Handled (fst (handler req app)), st, snd (handler req app)))"
proof (intro conjI allI impI)
  assume "http_method req = ''GET''"
  then show "withCSRFProtection handler req t st app =
        (Handled (fst (handler req app)), st, snd (handler req app))"
    by (simp add: withCSRFProtection_def split_beta)
next
  assume "http_method req \<noteq> ''GET'' \<and> \<not> truthy (headers req ''x-csrf-token'')"
  then show "withCSRFProtection handler req t st app =
        (Refused \<lparr>action = Respond 403
                    (JObject [(''success'', JBool False), (''error'', JString ''CSRF token missing'')]),
                  resp_headers = headers_set ''content-type'' ''application/json'' Map.empty\<rparr>,
         st, app)"
    by (simp add: withCSRFProtection_def json_response_def)
next
  fix tk
  assume "http_method req \<noteq> ''GET'' \<and> headers req ''x-csrf-token'' = Some tk \<and> tk \<noteq> [] \<and>
         \<not> fst (validateCSRFToken req tk t st)"
  then show "withCSRFProtection handler req t st app =
        (Refused \<lparr>action = Respond 403
                    (JObject [(''success'', JBool False), (''error'', JString ''Invalid CSRF token'')]),
                  resp_headers = headers_set ''content-type'' ''application/json'' Map.empty\<rparr>,
         snd (validateCSRFToken req tk t st), app)"
    by (simp add: withCSRFProtection_def json_response_def truthy_def str_def split_beta)
next
  fix tk
  assume a: "http_method req \<noteq> ''GET'' \<and> headers req ''x-csrf-token'' = Some tk \<and> tk \<noteq> [] \<and>
         fst (validateCSRFToken req tk t st)"
  then have "snd (validateCSRFToken req tk t st) = st"
    by (auto simp: validateCSRFToken_def split: option.splits if_splits)
  with a show "withCSRFProtection handler req t st app =
        (Handled (fst (handler req app)), st, snd (handler req app))"
    by (simp add: withCSRFProtection_def truthy_def str_def split_beta)
qed

text \<open>
  The four cases with a handler that counts its runs: a \<^verbatim>\<open>GET\<close>, a \<^verbatim>\<open>POST\<close> without a
  token, with a wrong token and with the session's token.
\<close>

theorem withCSRFProtection_gate_witness:
  "withCSRFProtection counting_handler (sample_session_request\<lparr>http_method := ''GET''\<rparr>) 2000 Map.empty 0 =
     (Handled ''done'', Map.empty, 1) \<and>
   withCSRFProtection counting_handler sample_session_request 2000 Map.empty 0 =
     (Refused \<lparr>action = Respond 403
                 (JObject [(''success'', JBool False), (''error'', JString ''CSRF token missing'')]),
               resp_headers = headers_set ''content-type'' ''application/json'' Map.empty\<rparr>,
      Map.empty, 0) \<and>
   withCSRFProtection counting_handler
       (sample_session_request\<lparr>headers := [''x-csrf-token'' \<mapsto> ''token-x'']\<rparr>) 2000
       (Map.empty(''sess-1'' \<mapsto> \<lparr>token = ''token-a'', expires = 5000\<rparr>)) 0 =
     (Refused \<lparr>action = Respond 403
                 (JObject [(''success'', JBool False), (''error'', JString ''Invalid CSRF token'')]),
               resp_headers = headers_set ''content-type'' ''application/json'' Map.empty\<rparr>,
      Map.empty(''sess-1'' \<mapsto> \<lparr>token = ''token-a'', expires = 5000\<rparr>), 0) \<and>
   withCSRFProtection counting_handler
       (sample_session_request\<lparr>headers := [''x-csrf-token'' \<mapsto> ''token-a'']\<rparr>) 2000
       (Map.empty(''sess-1'' \<mapsto> \<lparr>token = ''token-a'', expires = 5000\<rparr>)) 0 =
     (Handled ''done'', Map.empty(''sess-1'' \<mapsto> \<lparr>token = ''token-a'', expires = 5000\<rparr>), 1)"
proof -
  let ?st = "Map.empty(''sess-1'' \<mapsto> \<lparr>token = ''token-a'', expires = 5000\<rparr>)"
  let ?rx = "sample_session_request\<lparr>headers := [''x-csrf-token'' \<mapsto> ''token-x'']\<rparr>"
  let ?ra = "sample_session_request\<lparr>headers := [''x-csrf-token'' \<mapsto> ''token-a'']\<rparr>"
  have g: "http_method (sample_session_request\<lparr>http_method := ''GET''\<rparr>) = ''GET''" by simp
  have m: "http_method sample_session_request \<noteq> ''GET'' \<and>
           \<not> truthy (headers sample_session_request ''x-csrf-token'')"
    by (simp add: sample_session_request_def truthy_def)
  have x: "http_method ?rx \<noteq> ''GET'' \<and> headers ?rx ''x-csrf-token'' = Some ''token-x'' \<and>
           ''token-x'' \<noteq> [] \<and> \<not> fst (validateCSRFToken ?rx ''token-x'' 2000 ?st)"
    by (simp add: sample_session_request_def validateCSRFToken_def js_or_def truthy_def)
  have sx: "snd (validateCSRFToken ?rx ''token-x'' 2000 ?st) = ?st"
    by (simp add: sample_session_request_def validateCSRFToken_def js_or_def truthy_def)
  have a: "http_method ?ra \<noteq> ''GET'' \<and> headers ?ra ''x-csrf-token'' = Some ''token-a'' \<and>
           ''token-a'' \<noteq> [] \<and> fst (validateCSRFToken ?ra ''token-a'' 2000 ?st)"
    by (simp add: sample_session_request_def validateCSRFToken_def js_or_def truthy_def)
  have h: "\<And>r n. fst (counting_handler r n) = ''done''" "\<And>r n. snd (counting_handler r n) = Suc n"
    by (simp_all add: counting_handler_def)
  note get = withCSRFProtection_gate [where handler = counting_handler
      and req = "sample_session_request\<lparr>http_method := ''GET''\<rparr>" and t = 2000 and st = Map.empty
      and app = 0, THEN conjunct1, rule_format]
  note missing = withCSRFProtection_gate [where handler = counting_handler
      and req = sample_session_request and t = 2000 and st = Map.empty and app = 0,
      THEN conjunct2, THEN conjunct1, rule_format]
  note invalid = withCSRFProtection_gate [where handler = counting_handler
      and req = ?rx and t = 2000 and st = ?st and app = 0,
      THEN conjunct2, THEN conjunct2, THEN conjunct1, rule_format, of "''token-x''"]
  note accepted = withCSRFProtection_gate [where handler = counting_handler
      and req = ?ra and t = 2000 and st = ?st and app = 0,
      THEN conjunct2, THEN conjunct2, THEN conjunct2, rule_format, of "''token-a''"]
  have 1: "withCSRFProtection counting_handler (sample_session_request\<lparr>http_method := ''GET''\<rparr>) 2000 Map.empty 0 =
     (Handled ''done'', Map.empty, 1)"
    using get [OF g] unfolding h by simp
  have 2: "withCSRFProtection counting_handler sample_session_request 2000 Map.empty 0 =
     (Refused \<lparr>action = Respond 403
                 (JObject [(''success'', JBool False), (''error'', JString ''CSRF token missing'')]),
               resp_headers = headers_set ''content-type'' ''application/json'' Map.empty\<rparr>,
      Map.empty, 0)"
    by (rule missing) (rule m)
  have 3: "withCSRFProtection counting_handler ?rx 2000 ?st 0 =
     (Refused \<lparr>action = Respond 403
                 (JObject [(''success'', JBool False), (''error'', JString ''Invalid CSRF token'')]),
               resp_headers = headers_set ''content-type'' ''application/json'' Map.empty\<rparr>,
      ?st, 0)"
    using invalid [OF x] unfolding sx .
  have 4: "withCSRFProtection counting_handler ?ra 2000 ?st 0 = (Handled ''done'', ?st, 1)"
    using accepted [OF a] unfolding h by simp
  show ?thesis by (intro conjI 1 2 3 4)
qed

text \<open>
  Claim C8 as stated fails for the safe method \<^verbatim>\<open>HEAD\<close>: without a token the request
  is refused with 403 and the handler is not run.
\<close>

theorem withCSRFProtection_head_counterexample:
  "withCSRFProtection counting_handler (sample_session_request\<lparr>http_method := ''HEAD''\<rparr>) 2000 Map.empty 0 =
     (Refused \<lparr>action = Respond 403
                 (JObject [(''success'', JBool False), (''error'', JString ''CSRF token missing'')]),
               resp_headers = headers_set ''content-type'' ''application/json'' Map.empty\<rparr>,
      Map.empty, 0)"
  by (simp add: withCSRFProtection_def sample_session_request_def truthy_def json_response_def)

section \<open>Properties of the validation of the environment\<close>

lemma database_url_check_ok:
  "(fst (database_url_check parse_url penv) = []) =
     (\<not> truthy (penv ''DATABASE_URL'') \<or>
      (case parse_url (str (penv ''DATABASE_URL'')) of
         None \<Rightarrow> False
       | Some u \<Rightarrow> protocol u = ''postgresql:''))"
  by (simp add: database_url_check_def split: option.splits)

lemma nextauth_url_check_ok:
  "(nextauth_url_check parse_url penv = []) =
     (\<not> truthy (penv ''NEXTAUTH_URL'') \<or>
      (case parse_url (str (penv ''NEXTAUTH_URL'')) of
         None \<Rightarrow> False
       | Some u \<Rightarrow>
           (protocol u = ''http:'' \<or> protocol u = ''https:'') \<and>
           (protocol u = ''https:'' \<or> penv ''NODE_ENV'' \<noteq> Some ''production'')))"
  by (auto simp add: nextauth_url_check_def split: option.splits)

lemma nextauth_secret_check_ok:
  "(nextauth_secret_check penv = []) =
     (\<not> truthy (penv ''NEXTAUTH_SECRET'') \<or>
      (32 \<le> length (str (penv ''NEXTAUTH_SECRET'')) \<and>
       \<not> weak_secret (str (penv ''NEXTAUTH_SECRET''))))"
  by (auto simp add: nextauth_secret_check_def)

lemma node_env_check_ok:
  "(node_env_check penv = []) =
     (\<not> truthy (penv ''NODE_ENV'') \<or>
      str (penv ''NODE_ENV'') \<in> set [''development'', ''production'', ''test''])"
  by (simp add: node_env_check_def)

lemma env_validator_valid:
  "valid (validateEnvironmentVariables_env_validator parse_url penv) =
     (truthy (penv ''DATABASE_URL'') \<and> truthy (penv ''NEXTAUTH_URL'') \<and>
      truthy (penv ''NEXTAUTH_SECRET'') \<and> truthy (penv ''NODE_ENV'') \<and>
      (case parse_url (str (penv ''DATABASE_URL'')) of
         None \<Rightarrow> False
       | Some u \<Rightarrow> protocol u = ''postgresql:'') \<and>
      (case parse_url (str (penv ''NEXTAUTH_URL'')) of
         None \<Rightarrow> False
       | Some u \<Rightarrow>
           (protocol u = ''http:'' \<or> protocol u = ''https:'') \<and>
           (protocol u = ''https:'' \<or> penv ''NODE_ENV'' \<noteq> Some ''production'')) \<and>
      32 \<le> length (str (penv ''NEXTAUTH_SECRET'')) \<and>
      \<not> weak_secret (str (penv ''NEXTAUTH_SECRET'')) \<and>
      str (penv ''NODE_ENV'') \<in> set [''development'', ''production'', ''test''])"
proof -
  have "valid (validateEnvironmentVariables_env_validator parse_url penv) =
      (filter (\<lambda>envVar. \<not> truthy (penv envVar))
          [''DATABASE_URL'', ''NEXTAUTH_URL'', ''NEXTAUTH_SECRET'', ''NODE_ENV''] = [] \<and>
       fst (database_url_check parse_url penv) = [] \<and>
       nextauth_url_check parse_url penv = [] \<and>
       nextauth_secret_check penv = [] \<and>
       node_env_check penv = [])"
    by (simp add: validateEnvironmentVariables_env_validator_def Let_def conj_assoc)
  also have "\<dots> =
      ((truthy (penv ''DATABASE_URL'') \<and> truthy (penv ''NEXTAUTH_URL'') \<and>
        truthy (penv ''NEXTAUTH_SECRET'') \<and> truthy (penv ''NODE_ENV'')) \<and>
       fst (database_url_check parse_url penv) = [] \<and>
       nextauth_url_check parse_url penv = [] \<and>
       nextauth_secret_check penv = [] \<and>
       node_env_check penv = [])"
    by (simp add: filter_empty_conv)
  finally show ?thesis
    unfolding database_url_check_ok nextauth_url_check_ok nextauth_secret_check_ok node_env_check_ok
    by blast
qed

lemma database_url_check_frame:
  "database_url_check parse_url (penv(''NEXTAUTH_URL'' := x)) = database_url_check parse_url penv"
  by (simp add: database_url_check_def split: option.splits)

lemma env_validator_warnings:
  "warnings (validateEnvironmentVariables_env_validator parse_url (penv(''NEXTAUTH_URL'' := x))) =
   warnings (validateEnvironmentVariables_env_validator parse_url penv)"
  by (simp add: validateEnvironmentVariables_env_validator_def Let_def database_url_check_frame)

lemma security_validator_valid:
  "valid (validateEnvironmentVariables penv) =
     (truthy (penv ''DATABASE_URL'') \<and> truthy (penv ''NEXTAUTH_URL'') \<and>
      truthy (penv ''NEXTAUTH_SECRET'') \<and>
      32 \<le> length (str (penv ''NEXTAUTH_SECRET'')) \<and>
      prefix ''postgresql://'' (str (penv ''DATABASE_URL'')))"
  by (auto simp add: validateEnvironmentVariables_def Let_def filter_empty_conv)

text \<open>
  Claim C5, as the code has it. The validator of \<^verbatim>\<open>lib/env-validator.ts\<close> reports
  \<^verbatim>\<open>valid\<close> exactly when the four required variables are set, the connection string
  parses and its scheme is \<^verbatim>\<open>postgresql:\<close>, the base URL parses with scheme \<^verbatim>\<open>http:\<close> or
  \<^verbatim>\<open>https:\<close> and with \<^verbatim>\<open>https:\<close> when the environment tag is \<^verbatim>\<open>production\<close>, the secret
  has at least 32 characters and matches no weak pattern, and the tag is one of
  \<^verbatim>\<open>development\<close>, \<^verbatim>\<open>production\<close>, \<^verbatim>\<open>test\<close>. Its warnings do not depend on the base URL
  at all: outside production an \<^verbatim>\<open>http:\<close> base URL gives neither an error nor a warning.
  The validator of \<^verbatim>\<open>lib/security.ts\<close>, the one the middleware runs, reports \<^verbatim>\<open>valid\<close>
  exactly when the three variables it requires are set, the secret has at least 32
  characters and the connection string starts with \<^verbatim>\<open>postgresql://\<close>.
\<close>

theorem validateEnvironmentVariables_accepts_exactly:
  "(valid (validateEnvironmentVariables_env_validator parse_url penv) =
     (truthy (penv ''DATABASE_URL'') \<and> truthy (penv ''NEXTAUTH_URL'') \<and>
      truthy (penv ''NEXTAUTH_SECRET'') \<and> truthy (penv ''NODE_ENV'') \<and>
      (case parse_url (str (penv ''DATABASE_URL'')) of
         None \<Rightarrow> False
       | Some u \<Rightarrow> protocol u = ''postgresql:'') \<and>
      (case parse_url (str (penv ''NEXTAUTH_URL'')) of
         None \<Rightarrow> False
       | Some u \<Rightarrow>
           (protocol u = ''http:'' \<or> protocol u = ''https:'') \<and>
           (protocol u = ''https:'' \<or> penv ''NODE_ENV'' \<noteq> Some ''production'')) \<and>
      32 \<le> length (str (penv ''NEXTAUTH_SECRET'')) \<and>
      \<not> weak_secret (str (penv ''NEXTAUTH_SECRET'')) \<and>
      str (penv ''NODE_ENV'') \<in> set [''development'', ''production'', ''test''])) \<and>
   (\<forall>x. warnings (validateEnvironmentVariables_env_validator parse_url (penv(''NEXTAUTH_URL'' := x))) =
        warnings (validateEnvironmentVariables_env_validator parse_url penv)) \<and>
   (valid (validateEnvironmentVariables penv) =
     (truthy (penv ''DATABASE_URL'') \<and> truthy (penv ''NEXTAUTH_URL'') \<and>
      truthy (penv ''NEXTAUTH_SECRET'') \<and>
      32 \<le> length (str (penv ''NEXTAUTH_SECRET'')) \<and>
      prefix ''postgresql://'' (str (penv ''DATABASE_URL''))))"
  by (intro conjI allI env_validator_valid env_validator_warnings security_validator_valid)

text \<open>
  In production: a good environment is accepted; a secret of 16 characters, a secret of
  32 equal characters, a secret that starts with \<^verbatim>\<open>default\<close>, a \<^verbatim>\<open>mysql:\<close> connection
  string and an \<^verbatim>\<open>http:\<close> base URL are each rejected.
\<close>

theorem validateEnvironmentVariables_accepts_exactly_witness:
  "valid (validateEnvironmentVariables_env_validator sample_URL
     (sample_process_env ''production'' ''postgresql://db.internal:5432/app''
        ''https://shop.example.com'' ''k3J9xQ2mP7vL5nR8tY1wZ4bC6dF0gH2s'')) = True \<and>
   valid (validateEnvironmentVariables_env_validator sample_URL
     (sample_process_env ''production'' ''postgresql://db.internal:5432/app''
        ''https://shop.example.com'' ''k3J9xQ2mP7vL5nR'')) = False \<and>
   valid (validateEnvironmentVariables_env_validator sample_URL
     (sample_process_env ''production'' ''postgresql://db.internal:5432/app''
        ''https://shop.example.com'' ''aaaaaaaaaaaaaaaaaaaaaaaaaaaaaaaa'')) = False \<and>
   valid (validateEnvironmentVariables_env_validator sample_URL
     (sample_process_env ''production'' ''postgresql://db.internal:5432/app''
        ''https://shop.example.com'' ''default-k3J9xQ2mP7vL5nR8tY1wZ4bC6'')) = False \<and>
   valid (validateEnvironmentVariables_env_validator sample_URL
     (sample_process_env ''production'' ''mysql://db.internal:3306/app''
        ''https://shop.example.com'' ''k3J9xQ2mP7vL5nR8tY1wZ4bC6dF0gH2s'')) = False \<and>
   valid (validateEnvironmentVariables_env_validator sample_URL
     (sample_process_env ''production'' ''postgresql://db.internal:5432/app''
        ''http://shop.example.com'' ''k3J9xQ2mP7vL5nR8tY1wZ4bC6dF0gH2s'')) = False"
proof -
  let ?good = "''k3J9xQ2mP7vL5nR8tY1wZ4bC6dF0gH2s''"
  let ?db = "''postgresql://db.internal:5432/app''"
  let ?https = "''https://shop.example.com''"
  have 1: "valid (validateEnvironmentVariables_env_validator sample_URL
      (sample_process_env ''production'' ?db ?https ?good)) = True"
    unfolding validateEnvironmentVariables_accepts_exactly [where parse_url = sample_URL
        and penv = "sample_process_env ''production'' ?db ?https ?good", THEN conjunct1]
    by code_simp
  have 2: "valid (validateEnvironmentVariables_env_validator sample_URL
      (sample_process_env ''production'' ?db ?https ''k3J9xQ2mP7vL5nR'')) = False"
    unfolding validateEnvironmentVariables_accepts_exactly [where parse_url = sample_URL
        and penv = "sample_process_env ''production'' ?db ?https ''k3J9xQ2mP7vL5nR''", THEN conjunct1]
    by code_simp
  have 3: "valid (validateEnvironmentVariables_env_validator sample_URL
      (sample_process_env ''production'' ?db ?https ''aaaaaaaaaaaaaaaaaaaaaaaaaaaaaaaa'')) = False"
    unfolding validateEnvironmentVariables_accepts_exactly [where parse_url = sample_URL
        and penv = "sample_process_env ''production'' ?db ?https ''aaaaaaaaaaaaaaaaaaaaaaaaaaaaaaaa''", THEN conjunct1]
    by code_simp
  have 4: "valid (validateEnvironmentVariables_env_validator sample_URL
      (sample_process_env ''production'' ?db ?https ''default-k3J9xQ2mP7vL5nR8tY1wZ4bC6'')) = False"
    unfolding validateEnvironmentVariables_accepts_exactly [where parse_url = sample_URL
        and penv = "sample_process_env ''production'' ?db ?https ''default-k3J9xQ2mP7vL5nR8tY1wZ4bC6''", THEN conjunct1]
    by code_simp
  have 5: "valid (validateEnvironmentVariables_env_validator sample_URL
      (sample_process_env ''production'' ''mysql://db.internal:3306/app'' ?https ?good)) = False"
    unfolding validateEnvironmentVariables_accepts_exactly [where parse_url = sample_URL
        and penv = "sample_process_env ''production'' ''mysql://db.internal:3306/app'' ?https ?good", THEN conjunct1]
    by code_simp
  have 6: "valid (validateEnvironmentVariables_env_validator sample_URL
      (sample_process_env ''production'' ?db ''http://shop.example.com'' ?good)) = False"
    unfolding validateEnvironmentVariables_accepts_exactly [where parse_url = sample_URL
        and penv = "sample_process_env ''production'' ?db ''http://shop.example.com'' ?good", THEN conjunct1]
    by code_simp
  show ?thesis by (intro conjI 1 2 3 4 5 6)
qed

text \<open>
  Claim C5 as stated fails: under \<^verbatim>\<open>development\<close> an \<^verbatim>\<open>http:\<close> base URL gives no warning
  (the report has no warnings at all), and the validator of \<^verbatim>\<open>lib/security.ts\<close> accepts,
  in production, an \<^verbatim>\<open>http:\<close> base URL and a secret of 32 equal characters.
\<close>

theorem validateEnvironmentVariables_development_http_counterexample:
  "validateEnvironmentVariables_env_validator sample_URL
     (sample_process_env ''development'' ''postgresql://db.internal:5432/app''
        ''http://shop.example.com'' ''k3J9xQ2mP7vL5nR8tY1wZ4bC6dF0gH2s'') =
     \<lparr>valid = True, errors = [], warnings = []\<rparr> \<and>
   validateEnvironmentVariables
     (sample_process_env ''production'' ''postgresql://db.internal:5432/app''
        ''http://shop.example.com'' ''aaaaaaaaaaaaaaaaaaaaaaaaaaaaaaaa'') =
     \<lparr>valid = True, errors = []\<rparr>"
  by code_simp

end
